theory Spec2Isabelle
  imports Complex_Main
begin

section \<open>JavaScript numbers\<close>

text \<open>
  A JavaScript number is modelled as a real number or one of the three special values
  of IEEE 754. Arithmetic on finite values is exact (no rounding, no overflow to an
  infinity) and zero carries no sign: a nonzero number divided by zero is the infinity
  with the sign of the dividend. The special values follow IEEE 754: \<open>NaN\<close> is
  absorbing, \<open>Infinity - Infinity\<close>, \<open>0 * Infinity\<close>, \<open>0 / 0\<close> and
  \<open>Infinity / Infinity\<close> are \<open>NaN\<close>, and every comparison with \<open>NaN\<close> is false.
  What depends on the rounding of double precision (an exact equality between two
  computed values, say) cannot be expressed in this model.
\<close>

datatype jsnum = Fin real | PInf | NInf | NaN

fun js_isNaN :: "jsnum \<Rightarrow> bool" where
  "js_isNaN NaN = True"
| "js_isNaN _ = False"

fun js_isFinite :: "jsnum \<Rightarrow> bool" where
  "js_isFinite (Fin _) = True"
| "js_isFinite _ = False"

text \<open>The sign bit of a value that is not \<open>NaN\<close> (zero counts as positive).\<close>

fun js_negative :: "jsnum \<Rightarrow> bool" where
  "js_negative (Fin a) = (a < 0)"
| "js_negative NInf = True"
| "js_negative _ = False"

fun js_neg :: "jsnum \<Rightarrow> jsnum" where
  "js_neg (Fin a) = Fin (- a)"
| "js_neg PInf = NInf"
| "js_neg NInf = PInf"
| "js_neg NaN = NaN"

fun js_add :: "jsnum \<Rightarrow> jsnum \<Rightarrow> jsnum" where
  "js_add NaN _ = NaN"
| "js_add _ NaN = NaN"
| "js_add (Fin a) (Fin b) = Fin (a + b)"
| "js_add PInf NInf = NaN"
| "js_add NInf PInf = NaN"
| "js_add PInf _ = PInf"
| "js_add _ PInf = PInf"
| "js_add NInf _ = NInf"
| "js_add _ NInf = NInf"

definition js_sub :: "jsnum \<Rightarrow> jsnum \<Rightarrow> jsnum" where
  "js_sub a b = js_add a (js_neg b)"

fun js_mul :: "jsnum \<Rightarrow> jsnum \<Rightarrow> jsnum" where
  "js_mul NaN _ = NaN"
| "js_mul _ NaN = NaN"
| "js_mul (Fin a) (Fin b) = Fin (a * b)"
| "js_mul a b =
     (if a = Fin 0 \<or> b = Fin 0 then NaN
      else if js_negative a = js_negative b then PInf else NInf)"

fun js_div :: "jsnum \<Rightarrow> jsnum \<Rightarrow> jsnum" where
  "js_div NaN _ = NaN"
| "js_div _ NaN = NaN"
| "js_div (Fin a) (Fin b) =
     (if b = 0 then (if a = 0 then NaN else if 0 < a then PInf else NInf)
      else Fin (a / b))"
| "js_div (Fin a) _ = Fin 0"
| "js_div a (Fin b) = (if js_negative a = (b < 0) then PInf else NInf)"
| "js_div _ _ = NaN"

fun js_lt :: "jsnum \<Rightarrow> jsnum \<Rightarrow> bool" where
  "js_lt NaN _ = False"
| "js_lt _ NaN = False"
| "js_lt (Fin a) (Fin b) = (a < b)"
| "js_lt PInf _ = False"
| "js_lt _ PInf = True"
| "js_lt _ NInf = False"
| "js_lt NInf _ = True"

definition js_gt :: "jsnum \<Rightarrow> jsnum \<Rightarrow> bool" where
  "js_gt a b = js_lt b a"

text \<open>\<open>a >= b\<close>: false when either side is \<open>NaN\<close>.\<close>

definition js_ge :: "jsnum \<Rightarrow> jsnum \<Rightarrow> bool" where
  "js_ge a b = (\<not> js_isNaN a \<and> \<not> js_isNaN b \<and> \<not> js_lt a b)"

text \<open>
  \<open>Math.abs\<close>, \<open>Math.max\<close>, \<open>Math.min\<close> (two arguments), \<open>Math.sqrt\<close>,
  \<open>Math.sin\<close>, \<open>Math.cos\<close>, \<open>Math.tan\<close>. The source calls \<open>Math.tan\<close> on one
  constant only, 25 degrees, where the tangent of the reals is the quotient it should be.
\<close>

fun Math_abs :: "jsnum \<Rightarrow> jsnum" where
  "Math_abs (Fin a) = Fin \<bar>a\<bar>"
| "Math_abs PInf = PInf"
| "Math_abs NInf = PInf"
| "Math_abs NaN = NaN"

definition Math_max :: "jsnum \<Rightarrow> jsnum \<Rightarrow> jsnum" where
  "Math_max a b =
     (if js_isNaN a \<or> js_isNaN b then NaN else if js_lt a b then b else a)"

definition Math_min :: "jsnum \<Rightarrow> jsnum \<Rightarrow> jsnum" where
  "Math_min a b =
     (if js_isNaN a \<or> js_isNaN b then NaN else if js_lt b a then b else a)"

fun Math_sqrt :: "jsnum \<Rightarrow> jsnum" where
  "Math_sqrt (Fin a) = (if a < 0 then NaN else Fin (sqrt a))"
| "Math_sqrt PInf = PInf"
| "Math_sqrt _ = NaN"

fun Math_sin :: "jsnum \<Rightarrow> jsnum" where
  "Math_sin (Fin a) = Fin (sin a)"
| "Math_sin _ = NaN"

fun Math_cos :: "jsnum \<Rightarrow> jsnum" where
  "Math_cos (Fin a) = Fin (cos a)"
| "Math_cos _ = NaN"

fun Math_tan :: "jsnum \<Rightarrow> jsnum" where
  "Math_tan (Fin a) = Fin (tan a)"
| "Math_tan _ = NaN"

text \<open>
  A store into a \<open>Float32Array\<close> rounds the number to single precision, to the nearest
  value with ties to the even significand, as \<open>Math.fround\<close> does: a value with
  binary exponent \<open>e\<close> (at least -126, where the subnormal numbers begin) is rounded
  to a multiple of \<open>2\<^sup>e\<^sup>-\<^sup>2\<^sup>3\<close>, and a result of magnitude \<open>2\<^sup>1\<^sup>2\<^sup>8\<close> or more is an
  infinity. A read gives the stored value back.
\<close>

definition round_half_even :: "real \<Rightarrow> int" where
  "round_half_even q =
     (let f = \<lfloor>q\<rfloor>; d = q - of_int f
      in if d < 1 / 2 then f else if 1 / 2 < d then f + 1 else if even f then f else f + 1)"

definition float32 :: "real \<Rightarrow> jsnum" where
  "float32 x =
     (if x = 0 then Fin 0
      else
        (let e = max \<lfloor>log 2 \<bar>x\<bar>\<rfloor> (- 126);
             ulp = 2 powr of_int (e - 23);
             y = of_int (round_half_even (x / ulp)) * ulp
         in if 2 powr 128 \<le> \<bar>y\<bar> then (if 0 < x then PInf else NInf) else Fin y))"

fun Math_fround :: "jsnum \<Rightarrow> jsnum" where
  "Math_fround (Fin a) = float32 a"
| "Math_fround a = a"

text \<open>Truthiness of a number, and \<open>a || b\<close> on numbers: \<open>0\<close> and \<open>NaN\<close> are falsy.\<close>

fun js_truthy :: "jsnum \<Rightarrow> bool" where
  "js_truthy (Fin a) = (a \<noteq> 0)"
| "js_truthy NaN = False"
| "js_truthy _ = True"

definition js_or :: "jsnum \<Rightarrow> jsnum \<Rightarrow> jsnum" where
  "js_or a b = (if js_truthy a then a else b)"

text \<open>
  A property read that may be missing: \<open>None\<close> is \<open>undefined\<close> (or \<open>null\<close>), which is
  falsy, so \<open>x || d\<close> is \<open>d\<close> there.
\<close>

fun js_or_default :: "jsnum option \<Rightarrow> jsnum \<Rightarrow> jsnum" where
  "js_or_default None d = d"
| "js_or_default (Some a) d = js_or a d"

text \<open>
  The arithmetic operators of the source, \<open>+ - * /\<close> and unary minus, on JavaScript
  numbers.
\<close>

instantiation jsnum :: "{plus, minus, uminus, times, inverse}"
begin

definition plus_jsnum :: "jsnum \<Rightarrow> jsnum \<Rightarrow> jsnum" where
  plus_jsnum_def [simp]: "plus_jsnum a b = js_add a b"

definition minus_jsnum :: "jsnum \<Rightarrow> jsnum \<Rightarrow> jsnum" where
  minus_jsnum_def [simp]: "minus_jsnum a b = js_sub a b"

definition uminus_jsnum :: "jsnum \<Rightarrow> jsnum" where
  uminus_jsnum_def [simp]: "uminus_jsnum a = js_neg a"

definition times_jsnum :: "jsnum \<Rightarrow> jsnum \<Rightarrow> jsnum" where
  times_jsnum_def [simp]: "times_jsnum a b = js_mul a b"

definition divide_jsnum :: "jsnum \<Rightarrow> jsnum \<Rightarrow> jsnum" where
  divide_jsnum_def [simp]: "divide_jsnum a b = js_div a b"

definition inverse_jsnum :: "jsnum \<Rightarrow> jsnum" where
  inverse_jsnum_def [simp]: "inverse_jsnum a = js_div (Fin 1) a"

instance ..

end

section \<open>The parts of three.js that the camera rig calls\<close>

text \<open>
  \<open>THREE.MathUtils.degToRad\<close>, \<open>THREE.Vector3\<close> and \<open>THREE.Quaternion\<close> belong to the
  three.js library, not to this repository; they are written out here as the library
  defines them (\<open>applyQuaternion\<close> in the form of its current releases), over
  JavaScript numbers.
\<close>

record Vector3 =
  vx :: jsnum
  vy :: jsnum
  vz :: jsnum

record Quaternion =
  qx :: jsnum
  qy :: jsnum
  qz :: jsnum
  qw :: jsnum

definition DEG2RAD :: jsnum where
  "DEG2RAD = Fin (pi / 180)"

definition degToRad :: "jsnum \<Rightarrow> jsnum" where
  "degToRad degrees = degrees * DEG2RAD"

definition Vector3_new :: "jsnum \<Rightarrow> jsnum \<Rightarrow> jsnum \<Rightarrow> Vector3" where
  "Vector3_new x y z = \<lparr>vx = x, vy = y, vz = z\<rparr>"

text \<open>\<open>length()\<close>: \<open>Math.sqrt(x * x + y * y + z * z)\<close>.\<close>

definition Vector3_length :: "Vector3 \<Rightarrow> jsnum" where
  "Vector3_length v = Math_sqrt (vx v * vx v + vy v * vy v + vz v * vz v)"

definition multiplyScalar :: "Vector3 \<Rightarrow> jsnum \<Rightarrow> Vector3" where
  "multiplyScalar v s = \<lparr>vx = vx v * s, vy = vy v * s, vz = vz v * s\<rparr>"

text \<open>\<open>divideScalar(s)\<close> is \<open>multiplyScalar(1 / s)\<close>.\<close>

definition divideScalar :: "Vector3 \<Rightarrow> jsnum \<Rightarrow> Vector3" where
  "divideScalar v s = multiplyScalar v (Fin 1 / s)"

text \<open>\<open>normalize()\<close> is \<open>divideScalar(length() || 1)\<close>: the zero vector stays zero.\<close>

definition normalize :: "Vector3 \<Rightarrow> Vector3" where
  "normalize v = divideScalar v (js_or (Vector3_length v) (Fin 1))"

definition crossVectors :: "Vector3 \<Rightarrow> Vector3 \<Rightarrow> Vector3" where
  "crossVectors a b =
     \<lparr>vx = vy a * vz b - vz a * vy b,
      vy = vz a * vx b - vx a * vz b,
      vz = vx a * vy b - vy a * vx b\<rparr>"

definition setFromAxisAngle :: "Vector3 \<Rightarrow> jsnum \<Rightarrow> Quaternion" where
  "setFromAxisAngle axis angle =
     (let halfAngle = angle / Fin 2; s = Math_sin halfAngle
      in \<lparr>qx = vx axis * s, qy = vy axis * s, qz = vz axis * s, qw = Math_cos halfAngle\<rparr>)"

text \<open>
  \<open>applyQuaternion(q)\<close>: with \<open>t = 2 * cross(q.xyz, v)\<close> the result is
  \<open>v + q.w * t + cross(q.xyz, t)\<close>, each component evaluated left to right.
\<close>

definition applyQuaternion :: "Vector3 \<Rightarrow> Quaternion \<Rightarrow> Vector3" where
  "applyQuaternion v q =
     (let tx = Fin 2 * (qy q * vz v - qz q * vy v);
          ty = Fin 2 * (qz q * vx v - qx q * vz v);
          tz = Fin 2 * (qx q * vy v - qy q * vx v)
      in \<lparr>vx = vx v + qw q * tx + qy q * tz - qz q * ty,
          vy = vy v + qw q * ty + qz q * tx - qx q * tz,
          vz = vz v + qw q * tz + qx q * ty - qy q * tx\<rparr>)"

section \<open>The data of the camera rig\<close>

text \<open>
  The analysis result that \<open>analyzeImage\<close> returns and \<open>setInitialState\<close> reads. A
  numeric field is a number or missing (\<open>None\<close>); a text field is a string or missing.
\<close>

record CameraInfo =
  distance :: "jsnum option"
  focalLength :: "jsnum option"
  pitch :: "jsnum option"
  yaw :: "jsnum option"
  roll :: "jsnum option"
  height :: "jsnum option"
  shotType :: "string option"
  angle :: "string option"
  lens :: "string option"
  description :: "string option"

text \<open>The object \<open>this.state\<close> (and \<open>this.originalState\<close>): five numbers.\<close>

record CameraState =
  distance :: jsnum
  orbitH :: jsnum
  orbitV :: jsnum
  pan :: jsnum
  tilt :: jsnum

text \<open>
  The argument of \<open>updateState\<close>: an object that has some of the five keys of the
  camera state, each with a number.
\<close>

datatype key = Distance | OrbitH | OrbitV | Pan | Tilt

type_synonym PartialState = "key \<rightharpoonup> jsnum"

text \<open>
  \<open>this.state\<close> and \<open>this.originalState\<close> are references to objects, and
  \<open>updateState\<close> writes into the object that \<open>this.state\<close> refers to. The objects
  therefore live in a store, \<open>heap\<close>, from addresses to camera states; \<open>nextAddr\<close> is
  the next unused address, and an object literal (\<open>{ ... }\<close>) allocates there.

  The remaining fields are those of the class and, of the three.js scene objects it
  owns, the properties that its methods assign: the position of \<open>cameraArm\<close>, the pan
  and tilt rotation of \<open>cameraPivot\<close>, the scale of \<open>orbitPath\<close>, the visibility and
  the position array of \<open>viewportFrame\<close>, the visibility, scale, position and rotation
  of \<open>viewportPlane\<close>, the position array of \<open>frustumLines\<close>, and the visibility of the
  group. The orientation that \<open>cameraArm.lookAt(0, 0, 0)\<close> gives the arm is kept inside
  three.js and read by no method of the rig; it is not a field here. The position
  arrays are \<open>Float32Array\<close>s: what is stored in them is rounded to single precision.
\<close>

type_synonym addr = nat

record CameraRig =
  heap :: "addr \<Rightarrow> CameraState"
  nextAddr :: addr
  state :: addr
  originalState :: addr
  originalShotType :: "string option"
  originalAngle :: "string option"
  aspectRatio :: jsnum
  imageWidth :: jsnum
  imageHeight :: jsnum
  armPosition :: Vector3
  pivotRotationY :: jsnum
  pivotRotationX :: jsnum
  orbitPathScale :: jsnum
  frameVisible :: bool
  framePositions :: "jsnum list"
  planeVisible :: bool
  planeScale :: Vector3
  planePosition :: Vector3
  planeRotationY :: jsnum
  frustumPositions :: "jsnum list"
  groupVisible :: bool

section \<open>Objects in the store\<close>

text \<open>An object literal: the new object is stored at the next unused address.\<close>

definition alloc :: "CameraState \<Rightarrow> CameraRig \<Rightarrow> addr \<times> CameraRig" where
  "alloc obj r =
     (nextAddr r, r\<lparr>heap := (heap r)(nextAddr r := obj), nextAddr := Suc (nextAddr r)\<rparr>)"

text \<open>The object that \<open>this.state\<close> refers to, and the one \<open>this.originalState\<close> refers to.\<close>

definition this_state :: "CameraRig \<Rightarrow> CameraState" where
  "this_state r = heap r (state r)"

definition this_originalState :: "CameraRig \<Rightarrow> CameraState" where
  "this_originalState r = heap r (originalState r)"

text \<open>
  \<open>Object.assign(target, source)\<close>: every key that the source has is written to the
  target, the other properties of the target stay.
\<close>

definition Object_assign :: "CameraState \<Rightarrow> PartialState \<Rightarrow> CameraState" where
  "Object_assign target source =
     \<lparr>distance = (case source Distance of Some v \<Rightarrow> v | None \<Rightarrow> distance target),
      orbitH = (case source OrbitH of Some v \<Rightarrow> v | None \<Rightarrow> orbitH target),
      orbitV = (case source OrbitV of Some v \<Rightarrow> v | None \<Rightarrow> orbitV target),
      pan = (case source Pan of Some v \<Rightarrow> v | None \<Rightarrow> pan target),
      tilt = (case source Tilt of Some v \<Rightarrow> v | None \<Rightarrow> tilt target)\<rparr>"

text \<open>A typed array read: out of range it is \<open>undefined\<close>, which a typed array stores as \<open>NaN\<close>.\<close>

definition array_get :: "jsnum list \<Rightarrow> nat \<Rightarrow> jsnum" where
  "array_get xs i = (if i < length xs then xs ! i else NaN)"

section \<open>The geometry of CameraRig.js\<close>

text \<open>
  The locals of \<open>updateViewportFrame\<close>, one definition for each \<open>const\<close>, in the order
  of the source. \<open>updatePosition\<close> and \<open>updateFrustumLines\<close> compute \<open>theta\<close>, \<open>phi\<close>
  and the camera position (there \<open>x, y, z\<close> and \<open>camX, camY, camZ\<close>) by the same
  expressions.
\<close>

definition theta :: "CameraRig \<Rightarrow> jsnum" where
  "theta r = degToRad (orbitH (this_state r))"

definition phi :: "CameraRig \<Rightarrow> jsnum" where
  "phi r = degToRad (orbitV (this_state r))"

definition camX :: "CameraRig \<Rightarrow> jsnum" where
  "camX r = distance (this_state r) * Math_cos (phi r) * Math_sin (theta r)"

definition camY :: "CameraRig \<Rightarrow> jsnum" where
  "camY r = distance (this_state r) * Math_sin (phi r)"

definition camZ :: "CameraRig \<Rightarrow> jsnum" where
  "camZ r = distance (this_state r) * Math_cos (phi r) * Math_cos (theta r)"

definition camPos :: "CameraRig \<Rightarrow> Vector3" where
  "camPos r = Vector3_new (camX r) (camY r) (camZ r)"

definition lookDir :: "CameraRig \<Rightarrow> Vector3" where
  "lookDir r = normalize (Vector3_new (- camX r) (- camY r) (- camZ r))"

definition panRad :: "CameraRig \<Rightarrow> jsnum" where
  "panRad r = degToRad (pan (this_state r))"

definition tiltRad :: "CameraRig \<Rightarrow> jsnum" where
  "tiltRad r = degToRad (tilt (this_state r))"

definition worldUp :: Vector3 where
  "worldUp = Vector3_new (Fin 0) (Fin 1) (Fin 0)"

text \<open>\<open>right\<close> and \<open>up\<close> are computed from \<open>forward\<close> while it still is the clone of \<open>lookDir\<close>.\<close>

definition right :: "CameraRig \<Rightarrow> Vector3" where
  "right r = normalize (crossVectors (lookDir r) worldUp)"

definition up :: "CameraRig \<Rightarrow> Vector3" where
  "up r = normalize (crossVectors (right r) (lookDir r))"

definition panQuat :: "CameraRig \<Rightarrow> Quaternion" where
  "panQuat r = setFromAxisAngle (up r) (panRad r)"

definition tiltQuat :: "CameraRig \<Rightarrow> Quaternion" where
  "tiltQuat r = setFromAxisAngle (right r) (tiltRad r)"

definition forward :: "CameraRig \<Rightarrow> Vector3" where
  "forward r = applyQuaternion (applyQuaternion (lookDir r) (panQuat r)) (tiltQuat r)"

definition fov :: jsnum where
  "fov = Fin 50"

definition halfFovRad :: jsnum where
  "halfFovRad = degToRad (fov / Fin 2)"

definition distToPlane :: "CameraRig \<Rightarrow> jsnum" where
  "distToPlane r = Math_abs (camZ r)"

definition baseViewHeight :: "CameraRig \<Rightarrow> jsnum" where
  "baseViewHeight r = Fin 2 * Math_tan halfFovRad * distToPlane r"

definition baseViewWidth :: "CameraRig \<Rightarrow> jsnum" where
  "baseViewWidth r = baseViewHeight r * aspectRatio r"

definition marginFactor :: jsnum where
  "marginFactor = Fin 1.1"

definition scaleToMatchImage :: "CameraRig \<Rightarrow> jsnum" where
  "scaleToMatchImage r = (imageHeight r * marginFactor) / baseViewHeight r"

definition minScale :: jsnum where
  "minScale = Fin 0.5"

definition maxScale :: jsnum where
  "maxScale = Fin 2.0"

definition viewScale :: "CameraRig \<Rightarrow> jsnum" where
  "viewScale r = Math_max minScale (Math_min maxScale (scaleToMatchImage r))"

definition viewHeight :: "CameraRig \<Rightarrow> jsnum" where
  "viewHeight r = baseViewHeight r * viewScale r"

definition viewWidth :: "CameraRig \<Rightarrow> jsnum" where
  "viewWidth r = viewHeight r * aspectRatio r"

definition centerX :: "CameraRig \<Rightarrow> jsnum" where
  "centerX r = camX r + (vx (forward r) / vz (forward r)) * (- camZ r)"

definition centerY :: "CameraRig \<Rightarrow> jsnum" where
  "centerY r = camY r + (vy (forward r) / vz (forward r)) * (- camZ r)"

definition maxOffset :: "CameraRig \<Rightarrow> jsnum" where
  "maxOffset r = imageWidth r"

definition clampedCenterX :: "CameraRig \<Rightarrow> jsnum" where
  "clampedCenterX r =
     Math_max (- maxOffset r)
       (Math_min (maxOffset r) (if js_isNaN (centerX r) then Fin 0 else centerX r))"

definition clampedCenterY :: "CameraRig \<Rightarrow> jsnum" where
  "clampedCenterY r =
     Math_max (- maxOffset r)
       (Math_min (maxOffset r) (if js_isNaN (centerY r) then Fin 0 else centerY r))"

definition hw :: "CameraRig \<Rightarrow> jsnum" where
  "hw r = viewWidth r / Fin 2"

definition hh :: "CameraRig \<Rightarrow> jsnum" where
  "hh r = viewHeight r / Fin 2"

definition frameZ :: "CameraRig \<Rightarrow> jsnum" where
  "frameZ r = (if js_gt (camZ r) (Fin 0) then Fin 0.01 else - Fin 0.01)"

text \<open>
  \<open>updateViewportFrame\<close>: when the camera is nearer than 0.1 to the image plane the two
  objects are hidden and the method returns; otherwise they are shown and the five
  corners (into the \<open>Float32Array\<close>, so each is rounded to single precision), the
  scale, the position and the rotation are written.
\<close>

definition updateViewportFrame :: "CameraRig \<Rightarrow> CameraRig" where
  "updateViewportFrame r =
     (if js_lt (distToPlane r) (Fin 0.1)
      then r\<lparr>frameVisible := False, planeVisible := False\<rparr>
      else r\<lparr>frameVisible := True, planeVisible := True,
             framePositions :=
               map Math_fround
                 [clampedCenterX r - hw r, clampedCenterY r - hh r, frameZ r,
                  clampedCenterX r + hw r, clampedCenterY r - hh r, frameZ r,
                  clampedCenterX r + hw r, clampedCenterY r + hh r, frameZ r,
                  clampedCenterX r - hw r, clampedCenterY r + hh r, frameZ r,
                  clampedCenterX r - hw r, clampedCenterY r - hh r, frameZ r],
             planeScale := Vector3_new (viewWidth r) (viewHeight r) (Fin 1),
             planePosition := Vector3_new (clampedCenterX r) (clampedCenterY r) (frameZ r),
             planeRotationY := (if js_gt (camZ r) (Fin 0) then Fin 0 else Fin pi)\<rparr>)"

text \<open>
  \<open>updateFrustumLines\<close>: the body of the loop for one \<open>i\<close>, and the loop over
  \<open>i = 0, 1, 2, 3\<close>. The array is a \<open>Float32Array\<close> too. A write past the end of a
  typed array does nothing, as a list update does.
\<close>

definition frustumLine :: "CameraRig \<Rightarrow> nat \<Rightarrow> jsnum list \<Rightarrow> jsnum list" where
  "frustumLine r i positions =
     (let idx = i * 6; framePos = framePositions r
      in positions
           [idx := Math_fround (camX r),
            idx + 1 := Math_fround (camY r),
            idx + 2 := Math_fround (camZ r),
            idx + 3 := Math_fround (array_get framePos (i * 3)),
            idx + 4 := Math_fround (array_get framePos (i * 3 + 1)),
            idx + 5 := Math_fround (array_get framePos (i * 3 + 2))])"

definition updateFrustumLines :: "CameraRig \<Rightarrow> CameraRig" where
  "updateFrustumLines r =
     r\<lparr>frustumPositions := fold (frustumLine r) [0..<4] (frustumPositions r)\<rparr>"

definition updatePosition :: "CameraRig \<Rightarrow> CameraRig" where
  "updatePosition r =
     (let x = camX r; y = camY r; z = camZ r;
          r1 = r\<lparr>armPosition := Vector3_new x y z,
                 pivotRotationY := degToRad (pan (this_state r)),
                 pivotRotationX := degToRad (tilt (this_state r)),
                 orbitPathScale := distance (this_state r)\<rparr>
      in updateFrustumLines (updateViewportFrame r1))"

section \<open>The methods of the camera rig\<close>

text \<open>
  The constructor: the default state, a copy of it as original state, the default
  image dimensions; no shot type and no angle yet; the scene objects as three.js
  creates them (visible, at the origin, unit scale, position arrays of zeros).
\<close>

definition CameraRig_new :: CameraRig where
  "CameraRig_new =
     (let s = \<lparr>distance = Fin 3, orbitH = Fin 0, orbitV = Fin 0, pan = Fin 0, tilt = Fin 0\<rparr>
      in \<lparr>heap = (\<lambda>_. s), nextAddr = 2, state = 0, originalState = 1,
          originalShotType = None, originalAngle = None,
          aspectRatio = Fin 16 / Fin 9, imageWidth = Fin 2, imageHeight = Fin 2,
          armPosition = Vector3_new (Fin 0) (Fin 0) (Fin 0),
          pivotRotationY = Fin 0, pivotRotationX = Fin 0, orbitPathScale = Fin 1,
          frameVisible = True, framePositions = replicate 15 (Fin 0),
          planeVisible = True,
          planeScale = Vector3_new (Fin 1) (Fin 1) (Fin 1),
          planePosition = Vector3_new (Fin 0) (Fin 0) (Fin 0),
          planeRotationY = Fin 0,
          frustumPositions = replicate 24 (Fin 0),
          groupVisible = True\<rparr>)"

definition setAspectRatio :: "jsnum \<Rightarrow> CameraRig \<Rightarrow> CameraRig" where
  "setAspectRatio ratio r = updateViewportFrame (r\<lparr>aspectRatio := ratio\<rparr>)"

definition setImageSize :: "jsnum \<Rightarrow> jsnum \<Rightarrow> CameraRig \<Rightarrow> CameraRig" where
  "setImageSize width height' r =
     updateViewportFrame (r\<lparr>imageWidth := width, imageHeight := height'\<rparr>)"

text \<open>
  \<open>setInitialState\<close>: a new state object from the analysis result, with \<open>||\<close> for the
  defaults; a new object with the same properties (\<open>{ ...this.state }\<close>) as original
  state; the two tags; then \<open>updatePosition\<close>.
\<close>

definition setInitialState :: "CameraInfo \<Rightarrow> CameraRig \<Rightarrow> CameraRig" where
  "setInitialState cameraInfo r =
     (let (a, r1) =
            alloc \<lparr>distance = js_or_default (CameraInfo.distance cameraInfo) (Fin 3),
                   orbitH = js_or_default (yaw cameraInfo) (Fin 0),
                   orbitV = js_or_default (pitch cameraInfo) (Fin 0),
                   pan = Fin 0,
                   tilt = Fin 0\<rparr> r;
          r2 = r1\<lparr>state := a\<rparr>;
          (b, r3) = alloc (this_state r2) r2;
          r4 = r3\<lparr>originalState := b,
                  originalShotType := shotType cameraInfo,
                  originalAngle := angle cameraInfo\<rparr>
      in updatePosition r4)"

text \<open>\<open>updateState\<close>: \<open>Object.assign\<close> writes into the object \<open>this.state\<close> refers to.\<close>

definition updateState :: "PartialState \<Rightarrow> CameraRig \<Rightarrow> CameraRig" where
  "updateState newState r =
     updatePosition (r\<lparr>heap := (heap r)(state r := Object_assign (this_state r) newState)\<rparr>)"

text \<open>\<open>resetToOriginal\<close>: \<open>this.state\<close> becomes a new object with the properties of the original.\<close>

definition resetToOriginal :: "CameraRig \<Rightarrow> CameraRig" where
  "resetToOriginal r =
     (let (a, r1) = alloc (this_originalState r) r
      in updatePosition (r1\<lparr>state := a\<rparr>))"

text \<open>
  \<open>getState\<close> and \<open>getOriginalState\<close> return a new object with the five properties of
  the state and the two tags: here the state, the shot type and the angle, as a triple.
\<close>

definition getState :: "CameraRig \<Rightarrow> CameraState \<times> string option \<times> string option" where
  "getState r = (this_state r, originalShotType r, originalAngle r)"

definition getOriginalState :: "CameraRig \<Rightarrow> CameraState \<times> string option \<times> string option" where
  "getOriginalState r = (this_originalState r, originalShotType r, originalAngle r)"

definition setVisible :: "bool \<Rightarrow> CameraRig \<Rightarrow> CameraRig" where
  "setVisible visible r = r\<lparr>groupVisible := visible\<rparr>"

section \<open>The analysis call\<close>

text \<open>
  \<open>analyzeImage\<close> reaches out of the program: the key store, the AI service, and the
  built-in string and JSON functions of the language. They are the fields of \<open>World\<close>:
  what \<open>getApiKey()\<close> resolves to (\<open>None\<close> is \<open>null\<close>; or the error it rejects with), the two groups of
  the match of the data URL against \<open>/^data:(.+);base64,(.+)$/\<close> (\<open>None\<close> when it
  does not match), what
  \<open>generateContent\<close> answers for a client, a MIME type and the image data (the text
  of the response, or the error thrown), the text with the code fences removed and
  trimmed, and \<open>JSON.parse\<close>. An error is an object with a \<open>message\<close> that may be missing.
\<close>

record JsError =
  message :: "string option"

definition Error :: "string \<Rightarrow> JsError" where
  "Error m = \<lparr>message = Some m\<rparr>"

record World =
  getApiKey :: "JsError + string option"
  dataUrlMatch :: "string \<Rightarrow> (string \<times> string) option"
  generateContent :: "string \<Rightarrow> string \<Rightarrow> string \<Rightarrow> JsError + string option"
  cleanText :: "string \<Rightarrow> string"
  JSON_parse :: "string \<Rightarrow> JsError + CameraInfo"

text \<open>\<open>s.includes(search)\<close>: the search string occurs in \<open>s\<close>.\<close>

definition startsWith :: "string \<Rightarrow> string \<Rightarrow> bool" where
  "startsWith s search = (take (length search) s = search)"

fun String_includes :: "string \<Rightarrow> string \<Rightarrow> bool" where
  "String_includes [] search = (search = [])"
| "String_includes (c # cs) search = (startsWith (c # cs) search \<or> String_includes cs search)"

text \<open>
  \<open>getAIClient\<close>: the module keeps one client in \<open>aiClient\<close> (\<open>None\<close> is \<open>null\<close>); a client
  is identified by the key it was made with. The result is the client, which is then
  also the value of \<open>aiClient\<close>.
\<close>

definition getAIClient :: "World \<Rightarrow> string option \<Rightarrow> JsError + string" where
  "getAIClient w aiClient =
     (case getApiKey w of
        Inl e \<Rightarrow> Inl e
      | Inr None \<Rightarrow>
          Inl (Error ''API key not configured. Please enter your Gemini API key.'')
      | Inr (Some apiKey) \<Rightarrow>
          (if apiKey = []
           then Inl (Error ''API key not configured. Please enter your Gemini API key.'')
           else (case aiClient of None \<Rightarrow> Inr apiKey | Some c \<Rightarrow> Inr c)))"

definition resetAIClient :: "string option" where
  "resetAIClient = None"

text \<open>The record that the \<open>catch\<close> block returns.\<close>

definition defaultCameraInfo :: CameraInfo where
  "defaultCameraInfo =
     \<lparr>CameraInfo.distance = Some (Fin 3),
      focalLength = Some (Fin 50),
      pitch = Some (Fin 0),
      yaw = Some (Fin 0),
      roll = Some (Fin 0),
      height = Some (Fin 1.6),
      shotType = Some ''medium shot'',
      angle = Some ''eye level'',
      lens = Some ''normal'',
      description = Some ''Unable to analyze camera position''\<rparr>"

text \<open>The test of the \<open>catch\<close> block: \<open>e.message?.includes('API key')\<close>.\<close>

definition mentionsApiKey :: "JsError \<Rightarrow> bool" where
  "mentionsApiKey e = (case message e of None \<Rightarrow> False | Some m \<Rightarrow> String_includes m ''API key'')"

text \<open>The body of the \<open>try\<close> block: the request, then the parse of the cleaned text.\<close>

definition requestAndParse :: "World \<Rightarrow> string \<Rightarrow> string \<Rightarrow> string \<Rightarrow> JsError + CameraInfo" where
  "requestAndParse w ai mimeType base64Data =
     (case generateContent w ai mimeType base64Data of
        Inl e \<Rightarrow> Inl e
      | Inr response_text \<Rightarrow>
          (let text = (case response_text of None \<Rightarrow> [] | Some t \<Rightarrow> t);
               jsonStr = cleanText w text
           in JSON_parse w jsonStr))"

text \<open>
  \<open>analyzeImage\<close>: the result (\<open>Inl\<close> an error thrown to the caller, \<open>Inr\<close> the record
  returned) and the value of \<open>aiClient\<close> afterwards. The client and the match come
  before the \<open>try\<close>, so their errors are not caught.
\<close>

definition analyzeImage ::
  "World \<Rightarrow> string option \<Rightarrow> string \<Rightarrow> (JsError + CameraInfo) \<times> string option" where
  "analyzeImage w aiClient imageBase64 =
     (case getAIClient w aiClient of
        Inl e \<Rightarrow> (Inl e, aiClient)
      | Inr ai \<Rightarrow>
          (case dataUrlMatch w imageBase64 of
             None \<Rightarrow> (Inl (Error ''Invalid image data format''), Some ai)
           | Some (mimeType, base64Data) \<Rightarrow>
               (case requestAndParse w ai mimeType base64Data of
                  Inr info \<Rightarrow> (Inr info, Some ai)
                | Inl e \<Rightarrow>
                    (if mentionsApiKey e then (Inl e, Some ai)
                     else (Inr defaultCameraInfo, Some ai)))))"

section \<open>Auxiliary definitions for the properties\<close>

text \<open>The object literal of \<open>setInitialState\<close>, as a function of the analysis result.\<close>

definition initialState :: "CameraInfo \<Rightarrow> CameraState" where
  "initialState cameraInfo =
     \<lparr>distance = js_or_default (CameraInfo.distance cameraInfo) (Fin 3),
      orbitH = js_or_default (yaw cameraInfo) (Fin 0),
      orbitV = js_or_default (pitch cameraInfo) (Fin 0),
      pan = Fin 0,
      tilt = Fin 0\<rparr>"

text \<open>
  The invariant of the store: the state and the original state are two different
  objects, both allocated.
\<close>

definition separate :: "CameraRig \<Rightarrow> bool" where
  "separate r =
     (state r < nextAddr r \<and> originalState r < nextAddr r \<and> state r \<noteq> originalState r)"

text \<open>The calls that a client makes after \<open>setInitialState\<close>, and a sequence of them.\<close>

datatype rig_call =
    UpdateState PartialState
  | ResetToOriginal
  | SetAspectRatio jsnum
  | SetImageSize jsnum jsnum

fun call :: "rig_call \<Rightarrow> CameraRig \<Rightarrow> CameraRig" where
  "call (UpdateState newState) r = updateState newState r"
| "call ResetToOriginal r = resetToOriginal r"
| "call (SetAspectRatio ratio) r = setAspectRatio ratio r"
| "call (SetImageSize width height') r = setImageSize width height' r"

text \<open>The property of a state object for a key.\<close>

fun get_key :: "key \<Rightarrow> CameraState \<Rightarrow> jsnum" where
  "get_key Distance s = distance s"
| "get_key OrbitH s = orbitH s"
| "get_key OrbitV s = orbitV s"
| "get_key Pan s = pan s"
| "get_key Tilt s = tilt s"

text \<open>Analysis results used as concrete inputs below.\<close>

definition info_3_0_0 :: CameraInfo where
  "info_3_0_0 =
     \<lparr>CameraInfo.distance = Some (Fin 3), focalLength = None, pitch = Some (Fin 0),
      yaw = Some (Fin 0), roll = None, height = None, shotType = None, angle = None,
      lens = None, description = None\<rparr>"

definition info_5_30_10 :: CameraInfo where
  "info_5_30_10 =
     \<lparr>CameraInfo.distance = Some (Fin 5), focalLength = Some (Fin 35), pitch = Some (Fin 10),
      yaw = Some (Fin 30), roll = Some (Fin 0), height = Some (Fin 1.5),
      shotType = Some ''close-up'', angle = Some ''high angle'', lens = Some ''wide'',
      description = None\<rparr>"

definition info_distance_0 :: CameraInfo where
  "info_distance_0 =
     \<lparr>CameraInfo.distance = Some (Fin 0), focalLength = Some (Fin 50), pitch = Some (Fin 0),
      yaw = Some (Fin 0), roll = Some (Fin 0), height = Some (Fin 1.6),
      shotType = Some ''close-up'', angle = Some ''eye level'', lens = Some ''macro'',
      description = None\<rparr>"

text \<open>
  A rig for an image twice as wide as high (the image plane is 4 by 2), with the
  camera at its default position and the gaze tilted by 60 degrees.
\<close>

definition rig_wide_tilt60 :: CameraRig where
  "rig_wide_tilt60 =
     updateState [Tilt \<mapsto> Fin 60]
       (setImageSize (Fin 4) (Fin 2) (setAspectRatio (Fin 2) CameraRig_new))"

text \<open>
  The default rig after \<open>updateState({pan: NaN})\<close> (what \<open>parseInt\<close> gives for an empty
  slider value): the pan quaternion and with it the forward ray are \<open>NaN\<close>.
\<close>

definition rig_pan_NaN :: CameraRig where
  "rig_pan_NaN = updateState [Pan \<mapsto> NaN] CameraRig_new"

text \<open>
  The message of the \<open>SyntaxError\<close> that \<open>JSON.parse\<close> of the V8 engine throws for a
  short text that is no JSON: it quotes the first character and the text, as in
  \<^verbatim>\<open>Unexpected token 'A', "API key not valid" is not valid JSON\<close>. Character
  \<open>0x27\<close> is the single and \<open>0x22\<close> the double quotation mark.
\<close>

definition syntaxErrorMessage :: "string \<Rightarrow> string" where
  "syntaxErrorMessage text =
     ''Unexpected token '' @ [CHR 0x27] @ take 1 text @ [CHR 0x27] @ '', '' @ [CHR 0x22] @ text
       @ [CHR 0x22] @ '' is not valid JSON''"

text \<open>
  A world in which the key is stored, the data URL matches, the service answers with
  the given plain text, which has no code fence and no space around it, and
  \<open>JSON.parse\<close> throws the syntax error for it.
\<close>

definition world_plain_text :: "string \<Rightarrow> World" where
  "world_plain_text answer =
     \<lparr>getApiKey = Inr (Some ''key''),
      dataUrlMatch = (\<lambda>_. Some (''image/png'', ''iVBORw0KGgo='')),
      generateContent = (\<lambda>_ _ _. Inr (Some answer)),
      cleanText = (\<lambda>t. t),
      JSON_parse = (\<lambda>jsonStr. Inl (Error (syntaxErrorMessage jsonStr)))\<rparr>"

text \<open>A world in which the request itself fails with an error of the given message.\<close>

definition world_request_fails :: "string \<Rightarrow> World" where
  "world_request_fails msg =
     \<lparr>getApiKey = Inr (Some ''key''),
      dataUrlMatch = (\<lambda>_. Some (''image/png'', ''iVBORw0KGgo='')),
      generateContent = (\<lambda>_ _ _. Inl (Error msg)),
      cleanText = (\<lambda>t. t),
      JSON_parse = (\<lambda>jsonStr. Inl (Error (syntaxErrorMessage jsonStr)))\<rparr>"

section \<open>The store under the methods\<close>

lemma updateViewportFrame_store [simp]:
  "heap (updateViewportFrame r) = heap r"
  "nextAddr (updateViewportFrame r) = nextAddr r"
  "state (updateViewportFrame r) = state r"
  "originalState (updateViewportFrame r) = originalState r"
  "originalShotType (updateViewportFrame r) = originalShotType r"
  "originalAngle (updateViewportFrame r) = originalAngle r"
  by (simp_all add: updateViewportFrame_def)

lemma updateFrustumLines_store [simp]:
  "heap (updateFrustumLines r) = heap r"
  "nextAddr (updateFrustumLines r) = nextAddr r"
  "state (updateFrustumLines r) = state r"
  "originalState (updateFrustumLines r) = originalState r"
  "originalShotType (updateFrustumLines r) = originalShotType r"
  "originalAngle (updateFrustumLines r) = originalAngle r"
  by (simp_all add: updateFrustumLines_def)

lemma updatePosition_store [simp]:
  "heap (updatePosition r) = heap r"
  "nextAddr (updatePosition r) = nextAddr r"
  "state (updatePosition r) = state r"
  "originalState (updatePosition r) = originalState r"
  "originalShotType (updatePosition r) = originalShotType r"
  "originalAngle (updatePosition r) = originalAngle r"
  by (simp_all add: updatePosition_def Let_def)

lemma setInitialState_store:
  "state (setInitialState ci r) = nextAddr r"
  "originalState (setInitialState ci r) = Suc (nextAddr r)"
  "nextAddr (setInitialState ci r) = Suc (Suc (nextAddr r))"
  "heap (setInitialState ci r)
     = (heap r)(nextAddr r := initialState ci, Suc (nextAddr r) := initialState ci)"
  "originalShotType (setInitialState ci r) = shotType ci"
  "originalAngle (setInitialState ci r) = angle ci"
  by (simp_all add: setInitialState_def alloc_def this_state_def initialState_def Let_def)

lemma updateState_store:
  "state (updateState ns r) = state r"
  "originalState (updateState ns r) = originalState r"
  "nextAddr (updateState ns r) = nextAddr r"
  "heap (updateState ns r) = (heap r)(state r := Object_assign (heap r (state r)) ns)"
  "originalShotType (updateState ns r) = originalShotType r"
  "originalAngle (updateState ns r) = originalAngle r"
  by (simp_all add: updateState_def this_state_def)

lemma resetToOriginal_store:
  "state (resetToOriginal r) = nextAddr r"
  "originalState (resetToOriginal r) = originalState r"
  "nextAddr (resetToOriginal r) = Suc (nextAddr r)"
  "heap (resetToOriginal r) = (heap r)(nextAddr r := heap r (originalState r))"
  "originalShotType (resetToOriginal r) = originalShotType r"
  "originalAngle (resetToOriginal r) = originalAngle r"
  by (simp_all add: resetToOriginal_def alloc_def this_originalState_def Let_def)

lemma this_state_setInitialState: "this_state (setInitialState ci r) = initialState ci"
  by (simp add: this_state_def setInitialState_store)

lemma this_originalState_setInitialState:
  "this_originalState (setInitialState ci r) = initialState ci"
  by (simp add: this_originalState_def setInitialState_store)

lemma this_state_updateState:
  "this_state (updateState ns r) = Object_assign (this_state r) ns"
  by (simp add: this_state_def updateState_store)

lemma this_state_resetToOriginal: "this_state (resetToOriginal r) = this_originalState r"
  by (simp add: this_state_def this_originalState_def resetToOriginal_store)

lemma separate_setInitialState: "separate (setInitialState ci r)"
  by (simp add: separate_def setInitialState_store)

lemma call_original:
  assumes "separate r"
  shows "separate (call c r) \<and> originalState (call c r) = originalState r
    \<and> this_originalState (call c r) = this_originalState r
    \<and> originalShotType (call c r) = originalShotType r
    \<and> originalAngle (call c r) = originalAngle r"
  using assms
  by (cases c)
    (auto simp: separate_def this_originalState_def updateState_store resetToOriginal_store
      setAspectRatio_def setImageSize_def)

lemma calls_original:
  "separate r \<Longrightarrow>
    separate (fold call cs r) \<and> originalState (fold call cs r) = originalState r
    \<and> this_originalState (fold call cs r) = this_originalState r
    \<and> originalShotType (fold call cs r) = originalShotType r
    \<and> originalAngle (fold call cs r) = originalAngle r"
proof (induction cs arbitrary: r)
  case Nil
  then show ?case by simp
next
  case (Cons c cs)
  from call_original [OF Cons.prems, of c] Cons.IH [of "call c r"]
  show ?case by simp
qed

lemma fold_updateState_calls: "fold updateState us r = fold call (map UpdateState us) r"
  by (induction us arbitrary: r) simp_all

lemma updateViewportFrame_image [simp]:
  "aspectRatio (updateViewportFrame r) = aspectRatio r"
  "imageWidth (updateViewportFrame r) = imageWidth r"
  "imageHeight (updateViewportFrame r) = imageHeight r"
  by (simp_all add: updateViewportFrame_def)

lemma updatePosition_image [simp]:
  "aspectRatio (updatePosition r) = aspectRatio r"
  "imageWidth (updatePosition r) = imageWidth r"
  "imageHeight (updatePosition r) = imageHeight r"
  by (simp_all add: updatePosition_def Let_def updateFrustumLines_def)

lemma updateState_image [simp]:
  "aspectRatio (updateState ns r) = aspectRatio r"
  "imageWidth (updateState ns r) = imageWidth r"
  "imageHeight (updateState ns r) = imageHeight r"
  by (simp_all add: updateState_def)

lemma this_state_setImageSize [simp]: "this_state (setImageSize w h r) = this_state r"
  by (simp add: this_state_def setImageSize_def)

lemma this_state_setAspectRatio [simp]: "this_state (setAspectRatio a r) = this_state r"
  by (simp add: this_state_def setAspectRatio_def)

lemma this_state_CameraRig_new:
  "this_state CameraRig_new
     = \<lparr>distance = Fin 3, orbitH = Fin 0, orbitV = Fin 0, pan = Fin 0, tilt = Fin 0\<rparr>"
  by (simp add: this_state_def CameraRig_new_def)

section \<open>Reset, update and initial state\<close>

text \<open>
  Claim C3. After \<open>setInitialState\<close>, for every finite sequence of \<open>updateState\<close>
  calls, \<open>resetToOriginal\<close> makes the live state equal to the original state that
  \<open>setInitialState\<close> captured, which is the state it set. This holds from every rig:
  \<open>setInitialState\<close> allocates the two objects itself.
\<close>

theorem reset_restores_original:
  "this_state (resetToOriginal (fold updateState updates (setInitialState cameraInfo r)))
     = this_originalState (setInitialState cameraInfo r)
   \<and> this_originalState (setInitialState cameraInfo r)
     = this_state (setInitialState cameraInfo r)"
proof -
  have "separate (setInitialState cameraInfo r)"
    by (rule separate_setInitialState)
  from calls_original [OF this, of "map UpdateState updates"]
  show ?thesis
    by (simp add: this_state_resetToOriginal fold_updateState_calls
        this_originalState_setInitialState this_state_setInitialState)
qed

theorem reset_restores_original_witness:
  "this_state (resetToOriginal
      (fold updateState [[Distance \<mapsto> Fin 7], [Pan \<mapsto> Fin 10, OrbitH \<mapsto> Fin 90]]
        (setInitialState info_5_30_10 CameraRig_new)))
     = \<lparr>distance = Fin 5, orbitH = Fin 30, orbitV = Fin 10, pan = Fin 0, tilt = Fin 0\<rparr>"
  using reset_restores_original
    [of "[[Distance \<mapsto> Fin 7], [Pan \<mapsto> Fin 10, OrbitH \<mapsto> Fin 90]]" info_5_30_10 CameraRig_new]
  by (simp add: this_originalState_setInitialState initialState_def info_5_30_10_def js_or_def)

text \<open>
  Claim C9. After \<open>setInitialState\<close>, no sequence of \<open>updateState\<close>,
  \<open>resetToOriginal\<close>, \<open>setAspectRatio\<close> and \<open>setImageSize\<close> calls changes what
  \<open>getOriginalState\<close> returns: the original state object and the two tags. A later
  \<open>setInitialState\<close> replaces all three, by the state it sets and the tags of its
  argument.
\<close>

theorem original_state_read_only:
  "getOriginalState (fold call calls (setInitialState cameraInfo r))
     = getOriginalState (setInitialState cameraInfo r)
   \<and> getOriginalState (setInitialState cameraInfo' (fold call calls (setInitialState cameraInfo r)))
     = (this_state (setInitialState cameraInfo' (fold call calls (setInitialState cameraInfo r))),
        shotType cameraInfo', angle cameraInfo')"
proof -
  have "separate (setInitialState cameraInfo r)"
    by (rule separate_setInitialState)
  from calls_original [OF this, of calls]
  have "getOriginalState (fold call calls (setInitialState cameraInfo r))
     = getOriginalState (setInitialState cameraInfo r)"
    by (simp add: getOriginalState_def)
  moreover have "getOriginalState (setInitialState cameraInfo' r')
     = (this_state (setInitialState cameraInfo' r'), shotType cameraInfo', angle cameraInfo')" for r'
    by (simp add: getOriginalState_def this_originalState_setInitialState
        this_state_setInitialState setInitialState_store)
  ultimately show ?thesis by simp
qed

theorem original_state_read_only_witness:
  "getOriginalState
     (fold call
        [UpdateState [Distance \<mapsto> Fin 7], SetImageSize (Fin 4) (Fin 2), ResetToOriginal,
         SetAspectRatio (Fin 2), UpdateState [Tilt \<mapsto> Fin 15]]
        (setInitialState info_5_30_10 CameraRig_new))
     = (\<lparr>distance = Fin 5, orbitH = Fin 30, orbitV = Fin 10, pan = Fin 0, tilt = Fin 0\<rparr>,
        Some ''close-up'', Some ''high angle'')"
  using original_state_read_only
    [of "[UpdateState [Distance \<mapsto> Fin 7], SetImageSize (Fin 4) (Fin 2), ResetToOriginal,
         SetAspectRatio (Fin 2), UpdateState [Tilt \<mapsto> Fin 15]]" info_5_30_10 CameraRig_new]
  by (simp add: getOriginalState_def this_originalState_setInitialState setInitialState_store
      initialState_def info_5_30_10_def js_or_def)

text \<open>
  Claim C6. After \<open>updateState(newState)\<close> every key of the state has the value that
  \<open>newState\<close> gives it, and its old value when \<open>newState\<close> does not have the key. In
  particular \<open>updateState({distance: d})\<close> is followed by \<open>getState().distance\<close> being
  \<open>d\<close>, and \<open>updateState({pan: 10})\<close> leaves \<open>orbitH\<close>, \<open>orbitV\<close>, \<open>distance\<close> and
  \<open>tilt\<close> as they were.
\<close>

theorem updateState_merges:
  "get_key k (this_state (updateState newState r))
     = (case newState k of Some v \<Rightarrow> v | None \<Rightarrow> get_key k (this_state r))
   \<and> distance (fst (getState (updateState [Distance \<mapsto> d] r))) = d
   \<and> orbitH (fst (getState (updateState [Pan \<mapsto> Fin 10] r))) = orbitH (fst (getState r))
   \<and> orbitV (fst (getState (updateState [Pan \<mapsto> Fin 10] r))) = orbitV (fst (getState r))
   \<and> distance (fst (getState (updateState [Pan \<mapsto> Fin 10] r))) = distance (fst (getState r))
   \<and> tilt (fst (getState (updateState [Pan \<mapsto> Fin 10] r))) = tilt (fst (getState r))
   \<and> pan (fst (getState (updateState [Pan \<mapsto> Fin 10] r))) = Fin 10"
proof -
  have "get_key k (this_state (updateState newState r))
     = (case newState k of Some v \<Rightarrow> v | None \<Rightarrow> get_key k (this_state r))"
    by (cases k) (simp_all add: this_state_updateState Object_assign_def split: option.split)
  then show ?thesis
    by (simp add: getState_def this_state_updateState Object_assign_def)
qed

theorem updateState_merges_witness:
  "this_state (updateState [Distance \<mapsto> Fin 7, Tilt \<mapsto> Fin 5] CameraRig_new)
     = \<lparr>distance = Fin 7, orbitH = Fin 0, orbitV = Fin 0, pan = Fin 0, tilt = Fin 5\<rparr>"
proof -
  let ?r = "updateState [Distance \<mapsto> Fin 7, Tilt \<mapsto> Fin 5] CameraRig_new"
  have s: "this_state CameraRig_new
     = \<lparr>distance = Fin 3, orbitH = Fin 0, orbitV = Fin 0, pan = Fin 0, tilt = Fin 0\<rparr>"
    by (simp add: this_state_def CameraRig_new_def)
  have "get_key k (this_state ?r)
     = get_key k \<lparr>distance = Fin 7, orbitH = Fin 0, orbitV = Fin 0, pan = Fin 0, tilt = Fin 5\<rparr>"
    for k
    using updateState_merges [of k "[Distance \<mapsto> Fin 7, Tilt \<mapsto> Fin 5]" CameraRig_new]
    by (cases k) (simp_all add: s)
  from this [of Distance] this [of OrbitH] this [of OrbitV] this [of Pan] this [of Tilt]
  show ?thesis by simp
qed

text \<open>
  Claim C7, amended. For every analysis result, \<open>setInitialState\<close> sets the distance
  to the reported distance when that is present and neither 0 nor \<open>NaN\<close>, and to 3
  otherwise; \<open>orbitH\<close> to the reported yaw and \<open>orbitV\<close> to the reported pitch when
  present and not \<open>NaN\<close>, and to 0 otherwise; \<open>pan\<close> and \<open>tilt\<close> to 0. The instance
  below is the scenario \<open>{distance: 3, yaw: 0, pitch: 0}\<close>.
\<close>

theorem setInitialState_state:
  "this_state (setInitialState cameraInfo r)
     = \<lparr>distance =
          (case CameraInfo.distance cameraInfo of
             None \<Rightarrow> Fin 3
           | Some d \<Rightarrow> if d = Fin 0 \<or> d = NaN then Fin 3 else d),
        orbitH = (case yaw cameraInfo of None \<Rightarrow> Fin 0 | Some y \<Rightarrow> if y = NaN then Fin 0 else y),
        orbitV = (case pitch cameraInfo of None \<Rightarrow> Fin 0 | Some p \<Rightarrow> if p = NaN then Fin 0 else p),
        pan = Fin 0,
        tilt = Fin 0\<rparr>"
proof -
  have d: "js_or_default x (Fin 3)
      = (case x of None \<Rightarrow> Fin 3 | Some d \<Rightarrow> if d = Fin 0 \<or> d = NaN then Fin 3 else d)" for x
    by (cases x; cases "the x") (simp_all add: js_or_def)
  have z: "js_or_default x (Fin 0)
      = (case x of None \<Rightarrow> Fin 0 | Some y \<Rightarrow> if y = NaN then Fin 0 else y)" for x
    by (cases x; cases "the x") (auto simp: js_or_def)
  show ?thesis
    by (simp only: this_state_setInitialState initialState_def d z)
qed

theorem setInitialState_state_witness:
  "getState (setInitialState info_3_0_0 CameraRig_new)
     = (\<lparr>distance = Fin 3, orbitH = Fin 0, orbitV = Fin 0, pan = Fin 0, tilt = Fin 0\<rparr>,
        None, None)"
  using setInitialState_state [of info_3_0_0 CameraRig_new]
  by (simp add: getState_def info_3_0_0_def setInitialState_store)

text \<open>
  Claim C7 as stated (the distance is the reported one, 3 only when it is missing)
  fails for a reported distance of 0: the state has distance 3.
\<close>

theorem distance_0_not_kept:
  "CameraInfo.distance info_distance_0 = Some (Fin 0)
   \<and> distance (fst (getState (setInitialState info_distance_0 CameraRig_new))) = Fin 3
   \<and> distance (fst (getState (setInitialState info_distance_0 CameraRig_new))) \<noteq> Fin 0"
  by (simp add: getState_def this_state_setInitialState initialState_def info_distance_0_def
      js_or_def)

text \<open>
  Claim C10. When the analysis result has a distance and it is falsy (0 or \<open>NaN\<close>),
  \<open>setInitialState\<close> sets the distance 3: the default replaces a falsy value, not only
  a missing one.
\<close>

theorem falsy_distance_replaced:
  assumes "CameraInfo.distance cameraInfo = Some d" and "\<not> js_truthy d"
  shows "distance (this_state (setInitialState cameraInfo r)) = Fin 3"
  using assms by (simp add: this_state_setInitialState initialState_def js_or_def)

theorem falsy_distance_replaced_witness:
  "CameraInfo.distance info_distance_0 = Some (Fin 0) \<and> \<not> js_truthy (Fin 0)
   \<and> distance (this_state (setInitialState info_distance_0 CameraRig_new)) = Fin 3"
proof -
  have d: "CameraInfo.distance info_distance_0 = Some (Fin 0)"
    by (simp add: info_distance_0_def)
  have f: "\<not> js_truthy (Fin 0)"
    by simp
  from falsy_distance_replaced [OF d f, of CameraRig_new] d f show ?thesis
    by simp
qed

section \<open>analyzeImage\<close>

text \<open>
  What the \<open>catch\<close> block does with an error of the \<open>try\<close> block, whether thrown by
  the request or by \<open>JSON.parse\<close>: it is thrown on when its message contains
  \<open>API key\<close>, and replaced by the default record otherwise.
\<close>

lemma analyzeImage_catch:
  assumes "getAIClient w aiClient = Inr ai"
    and "dataUrlMatch w imageBase64 = Some (mimeType, base64Data)"
    and "requestAndParse w ai mimeType base64Data = Inl e"
  shows "fst (analyzeImage w aiClient imageBase64)
     = (if mentionsApiKey e then Inl e else Inr defaultCameraInfo)"
  using assms by (simp add: analyzeImage_def)

lemma world_plain_text_parse:
  "getAIClient (world_plain_text answer) None = Inr ''key''"
  "dataUrlMatch (world_plain_text answer) ''data:image/png;base64,iVBORw0KGgo=''
     = Some (''image/png'', ''iVBORw0KGgo='')"
  "requestAndParse (world_plain_text answer) ''key'' ''image/png'' ''iVBORw0KGgo=''
     = Inl (Error (syntaxErrorMessage answer))"
  by (simp_all add: world_plain_text_def getAIClient_def requestAndParse_def)

lemma world_request_fails_request:
  "getAIClient (world_request_fails msg) None = Inr ''key''"
  "dataUrlMatch (world_request_fails msg) ''data:image/png;base64,iVBORw0KGgo=''
     = Some (''image/png'', ''iVBORw0KGgo='')"
  "requestAndParse (world_request_fails msg) ''key'' ''image/png'' ''iVBORw0KGgo=''
     = Inl (Error msg)"
  by (simp_all add: world_request_fails_def getAIClient_def requestAndParse_def)

text \<open>
  Claim C8 fails on the code. The service answers \<^verbatim>\<open>API key not valid\<close> as plain
  text; the response cannot be parsed, the failure is a parse failure and no
  credential error, and yet \<open>analyzeImage\<close> throws: the message of the syntax error
  quotes the text and so contains \<open>API key\<close>. Another plain text, \<^verbatim>\<open>I cannot tell.\<close>,
  gives the default record (distance 3, focal length 50, pitch, yaw and roll 0, height
  1.6, medium shot, eye level, normal lens), as the comments of the \<open>catch\<close> block
  intend for every parse failure.
\<close>

theorem parse_failure_quoting_api_key_is_thrown:
  "fst (analyzeImage (world_plain_text ''API key not valid'') None
      ''data:image/png;base64,iVBORw0KGgo='')
     = Inl (Error (syntaxErrorMessage ''API key not valid''))
   \<and> fst (analyzeImage (world_plain_text ''I cannot tell.'') None
      ''data:image/png;base64,iVBORw0KGgo='')
     = Inr defaultCameraInfo
   \<and> defaultCameraInfo
     = \<lparr>CameraInfo.distance = Some (Fin 3), focalLength = Some (Fin 50), pitch = Some (Fin 0),
        yaw = Some (Fin 0), roll = Some (Fin 0), height = Some (Fin 1.6),
        shotType = Some ''medium shot'', angle = Some ''eye level'', lens = Some ''normal'',
        description = Some ''Unable to analyze camera position''\<rparr>"
proof -
  have y: "mentionsApiKey (Error (syntaxErrorMessage ''API key not valid''))"
    by (simp add: mentionsApiKey_def Error_def syntaxErrorMessage_def startsWith_def)
  have n: "\<not> mentionsApiKey (Error (syntaxErrorMessage ''I cannot tell.''))"
    by (simp add: mentionsApiKey_def Error_def syntaxErrorMessage_def startsWith_def)
  from analyzeImage_catch [OF world_plain_text_parse, of "''API key not valid''"] y
    analyzeImage_catch [OF world_plain_text_parse, of "''I cannot tell.''"] n
  show ?thesis
    by (simp add: defaultCameraInfo_def)
qed

text \<open>
  In the other direction, a credential failure of the request whose message does not
  have the words \<open>API key\<close> in this spelling is not thrown on: the caller gets the
  default record.
\<close>

lemma credential_failure_in_other_words_is_swallowed:
  "fst (analyzeImage
      (world_request_fails
        ''Please use API Key or other form of API consumer identity to call this API.'')
      None ''data:image/png;base64,iVBORw0KGgo='')
     = Inr defaultCameraInfo"
proof -
  have "\<not> mentionsApiKey
      (Error ''Please use API Key or other form of API consumer identity to call this API.'')"
    by (simp add: mentionsApiKey_def Error_def startsWith_def)
  with analyzeImage_catch [OF world_request_fails_request,
      of "''Please use API Key or other form of API consumer identity to call this API.''"]
  show ?thesis by simp
qed

section \<open>Viewport frame\<close>

text \<open>
  Claim C2. When \<open>|camZ| < 0.1\<close>, \<open>updateViewportFrame\<close> only hides the frame and the
  plane: both visibility flags are false and no coordinate is computed or written, so
  the corners, the scale and the position are what they were (no division by the
  distance to the plane takes place).
\<close>

theorem near_plane_not_visible:
  assumes "js_lt (Math_abs (camZ r)) (Fin 0.1)"
  shows "updateViewportFrame r = r\<lparr>frameVisible := False, planeVisible := False\<rparr>
    \<and> \<not> frameVisible (updateViewportFrame r)
    \<and> \<not> planeVisible (updateViewportFrame r)
    \<and> framePositions (updateViewportFrame r) = framePositions r
    \<and> planeScale (updateViewportFrame r) = planeScale r
    \<and> planePosition (updateViewportFrame r) = planePosition r"
  using assms by (simp add: updateViewportFrame_def distToPlane_def)

theorem near_plane_not_visible_witness:
  "js_lt (Math_abs (camZ (updateState [OrbitH \<mapsto> Fin 90] CameraRig_new))) (Fin 0.1)
   \<and> \<not> frameVisible (updateViewportFrame (updateState [OrbitH \<mapsto> Fin 90] CameraRig_new))
   \<and> framePositions (updateViewportFrame (updateState [OrbitH \<mapsto> Fin 90] CameraRig_new))
       = replicate 15 (Fin 0)"
proof -
  let ?r = "updateState [OrbitH \<mapsto> Fin 90] CameraRig_new"
  have s: "this_state ?r
      = \<lparr>distance = Fin 3, orbitH = Fin 90, orbitV = Fin 0, pan = Fin 0, tilt = Fin 0\<rparr>"
    by (simp add: this_state_updateState this_state_CameraRig_new Object_assign_def)
  have z: "camZ ?r = Fin 0"
    by (simp add: camZ_def theta_def phi_def degToRad_def DEG2RAD_def s)
  have n: "js_lt (Math_abs (camZ ?r)) (Fin 0.1)"
    by (simp add: z)
  have p: "framePositions ?r = replicate 15 (Fin 0)"
    by (simp add: updateState_def updatePosition_def Let_def updateFrustumLines_def
        updateViewportFrame_def distToPlane_def camZ_def theta_def phi_def degToRad_def
        DEG2RAD_def this_state_def CameraRig_new_def Object_assign_def)
  from near_plane_not_visible [OF n] n p show ?thesis
    by simp
qed

lemma camZ_finite:
  assumes "distance (this_state r) = Fin d" and "js_ge (distToPlane r) (Fin 0.1)"
  shows "\<exists>z. camZ r = Fin z \<and> 0.1 \<le> \<bar>z\<bar>"
  using assms
  by (cases "orbitV (this_state r)"; cases "orbitH (this_state r)")
    (simp_all add: js_ge_def distToPlane_def camZ_def theta_def phi_def degToRad_def DEG2RAD_def)

lemma scale_clamped:
  assumes "x \<noteq> NaN"
  shows "\<exists>k. Math_max minScale (Math_min maxScale x) = Fin k \<and> 1 / 2 \<le> k \<and> k \<le> 2"
  using assms
  by (cases x)
    (auto simp: Math_max_def Math_min_def minScale_def maxScale_def intro: exI [of _ "1 / 2"])

lemma scaleToMatchImage_number:
  assumes "baseViewHeight r = Fin b" and "0 < b" and "imageHeight r \<noteq> NaN"
  shows "scaleToMatchImage r \<noteq> NaN"
  using assms by (cases "imageHeight r") (simp_all add: scaleToMatchImage_def marginFactor_def)

lemma tan_halfFov: "Math_tan halfFovRad = Fin (tan (25 * (pi / 180)))"
  by (simp add: halfFovRad_def fov_def degToRad_def DEG2RAD_def)

lemma tan_halfFov_pos: "0 < tan (25 * (pi / 180))"
  by (rule tan_gt_zero) (simp_all add: field_simps)

text \<open>
  Rounding to single precision: the number \<open>1.1\<close> is stored as
  \<open>9227469 / 2\<^sup>2\<^sup>3\<close>, which is \<open>1.10000002384185791015625\<close>.
\<close>

lemma floor_log2_unit: "1 \<le> x \<Longrightarrow> x < 2 \<Longrightarrow> \<lfloor>log 2 \<bar>x\<bar>\<rfloor> = 0"
proof -
  assume a: "1 \<le> x" "x < 2"
  then have "0 \<le> log 2 x" "log 2 x < 1"
    by (simp_all add: log_less_iff)
  with a show ?thesis by (simp add: floor_eq_iff)
qed

lemma float32_unit:
  assumes "1 \<le> x" and "x < 2" and "round_half_even (x * 8388608) = n" and "n < 16777216 * 16777216"
    and "0 \<le> n"
  shows "float32 x = Fin (of_int n / 8388608)"
proof -
  have e: "max \<lfloor>log 2 \<bar>x\<bar>\<rfloor> (- 126) - 23 = - 23"
    using floor_log2_unit [OF assms(1,2)] by simp
  have p: "(2::real) powr of_int (- 23) = 1 / 8388608"
    by (simp add: powr_minus_divide)
  have r: "round_half_even (x / (1 / 8388608)) = n"
    using assms(3) by simp
  have "(2::real) \<le> 2 powr 128"
    using powr_mono [of 1 128 "2::real"] by simp
  have "of_int n / 8388608 < (2::real) powr 128"
  proof -
    have "real_of_int n < 16777216 * 16777216"
      using assms(4) by linarith
    then have "real_of_int n / 8388608 < 16777216 * 16777216 / 8388608"
      by (simp add: divide_strict_right_mono)
    also have "\<dots> \<le> 2 powr 128"
      by (simp add: powr_numeral)
    finally show ?thesis .
  qed
  then have big: "\<not> 2 powr 128 \<le> \<bar>of_int n * (1 / 8388608 :: real)\<bar>"
    using assms(5) by simp
  have nz: "x \<noteq> 0"
    using assms(1) by simp
  show ?thesis
    unfolding float32_def Let_def e p r
    using big nz by simp
qed

lemma float32_1_1: "float32 1.1 = Fin (9227469 / 8388608)"
proof -
  have q: "\<lfloor>(46137344 / 5 :: real)\<rfloor> = 9227468"
    by (simp add: floor_eq_iff)
  have r: "round_half_even (1.1 * 8388608) = 9227469"
    by (simp add: round_half_even_def Let_def q)
  from float32_unit [OF _ _ r] show ?thesis
    by simp
qed


text \<open>
  The rig of the constructor, evaluated step by step: the camera is at \<open>(0, 0, 3)\<close>
  and looks along \<open>(0, 0, -1)\<close>, the scale is \<open>2.2\<close> by the base height, within its
  bounds, the half height of the frame is \<open>1.1\<close> and the upper corners are stored
  at the single precision value of \<open>1.1\<close>.
\<close>

lemma sqrt_9: "sqrt 9 = 3"
  using real_sqrt_abs [of 3] by simp

lemma new_cam:
  "camX CameraRig_new = Fin 0" "camY CameraRig_new = Fin 0" "camZ CameraRig_new = Fin 3"
  by (simp_all add: camX_def camY_def camZ_def theta_def phi_def degToRad_def DEG2RAD_def
      this_state_CameraRig_new)

lemma new_lookDir: "lookDir CameraRig_new = \<lparr>vx = Fin 0, vy = Fin 0, vz = Fin (- 1)\<rparr>"
  by (simp add: lookDir_def new_cam normalize_def Vector3_new_def Vector3_length_def
      divideScalar_def multiplyScalar_def js_or_def sqrt_9)

lemma new_right: "right CameraRig_new = \<lparr>vx = Fin 1, vy = Fin 0, vz = Fin 0\<rparr>"
  by (simp add: right_def new_lookDir worldUp_def crossVectors_def normalize_def
      Vector3_new_def Vector3_length_def divideScalar_def multiplyScalar_def js_or_def js_sub_def)

lemma new_up: "up CameraRig_new = \<lparr>vx = Fin 0, vy = Fin 1, vz = Fin 0\<rparr>"
  by (simp add: up_def new_lookDir new_right crossVectors_def normalize_def
      Vector3_new_def Vector3_length_def divideScalar_def multiplyScalar_def js_or_def js_sub_def)

lemma new_quats:
  "panQuat CameraRig_new = \<lparr>qx = Fin 0, qy = Fin 0, qz = Fin 0, qw = Fin 1\<rparr>"
  "tiltQuat CameraRig_new = \<lparr>qx = Fin 0, qy = Fin 0, qz = Fin 0, qw = Fin 1\<rparr>"
  by (simp_all add: panQuat_def tiltQuat_def new_up new_right panRad_def tiltRad_def
      this_state_CameraRig_new degToRad_def DEG2RAD_def setFromAxisAngle_def Let_def)

lemma new_forward: "forward CameraRig_new = \<lparr>vx = Fin 0, vy = Fin 0, vz = Fin (- 1)\<rparr>"
  by (simp add: forward_def new_lookDir new_quats applyQuaternion_def js_sub_def Let_def)

lemma new_image: "imageWidth CameraRig_new = Fin 2" "imageHeight CameraRig_new = Fin 2"
  by (simp_all add: CameraRig_new_def)

lemma new_clampedCenterY: "clampedCenterY CameraRig_new = Fin 0"
  by (simp add: clampedCenterY_def centerY_def maxOffset_def new_forward new_cam
      new_image Math_max_def Math_min_def)

lemma frac_bound:
  fixes a :: real
  assumes "1 / 2 \<le> a"
  shows "11 / 60 \<le> a / (a + 1)"
proof -
  have p: "0 < a + 1"
    using assms by linarith
  have "11 / 60 * (a + 1) \<le> a"
    using assms by (simp add: algebra_simps)
  with p show ?thesis
    by (simp only: pos_le_divide_eq)
qed

lemma tan_25_bounds: "11 / 60 \<le> tan (25 * (pi / 180))" "tan (25 * (pi / 180)) \<le> 11 / 15"
proof -
  have "tan (pi / 8) = sin (pi / 4) / (cos (pi / 4) + 1)"
    using tan_half [of "pi / 8"] by simp
  also have "\<dots> = (sqrt 2 / 2) / (sqrt 2 / 2 + 1)"
    by (simp only: sin_45 cos_45)
  finally have t: "tan (pi / 8) = (sqrt 2 / 2) / (sqrt 2 / 2 + 1)" .
  have "1 / 2 \<le> sqrt 2 / 2"
    by simp
  then have "11 / 60 \<le> (sqrt 2 / 2) / (sqrt 2 / 2 + 1)"
    by (rule frac_bound)
  also have "\<dots> = tan (pi / 8)"
    by (simp only: t)
  also have "\<dots> \<le> tan (25 * (pi / 180))"
    by (rule tan_mono_le) (simp_all add: field_simps)
  finally show "11 / 60 \<le> tan (25 * (pi / 180))" .
  have "15 / 11 \<le> sqrt 3"
    by (rule real_le_rsqrt) (simp add: power2_eq_square)
  then have s: "1 / sqrt 3 \<le> 11 / 15"
    by (simp add: field_simps)
  have "tan (25 * (pi / 180)) \<le> tan (pi / 6)"
    by (rule tan_mono_le) (simp_all add: field_simps)
  also have "\<dots> = 1 / sqrt 3"
    by (rule tan_30)
  also note s
  finally show "tan (25 * (pi / 180)) \<le> 11 / 15" .
qed

lemma new_viewScale: "viewScale CameraRig_new = Fin (11 / (30 * tan (25 * (pi / 180))))"
proof -
  have pos: "0 < tan (25 * (pi / 180))"
    by (rule tan_halfFov_pos)
  have b: "baseViewHeight CameraRig_new = Fin (6 * tan (25 * (pi / 180)))"
    by (simp add: baseViewHeight_def tan_halfFov distToPlane_def new_cam)
  have i: "imageHeight CameraRig_new = Fin 2"
    by (simp add: CameraRig_new_def)
  have s: "scaleToMatchImage CameraRig_new = Fin (11 / (30 * tan (25 * (pi / 180))))"
    using pos by (simp add: scaleToMatchImage_def b i marginFactor_def)
  have lo: "1 / 2 \<le> 11 / (30 * tan (25 * (pi / 180)))"
    using pos tan_25_bounds(2) by (simp add: field_simps)
  have hi: "11 / (30 * tan (25 * (pi / 180))) \<le> 2"
    using pos tan_25_bounds(1) by (simp add: field_simps)
  show ?thesis
    using lo hi by (simp add: viewScale_def s Math_max_def Math_min_def minScale_def maxScale_def)
qed

lemma new_hh: "hh CameraRig_new = Fin 1.1"
proof -
  have pos: "0 < tan (25 * (pi / 180))"
    by (rule tan_halfFov_pos)
  have b: "baseViewHeight CameraRig_new = Fin (6 * tan (25 * (pi / 180)))"
    by (simp add: baseViewHeight_def tan_halfFov distToPlane_def new_cam)
  show ?thesis
    using pos by (simp add: hh_def viewHeight_def b new_viewScale)
qed

lemma new_corner:
  "framePositions (updateViewportFrame CameraRig_new) ! 7 = Fin (9227469 / 8388608)"
proof -
  have v: "\<not> js_lt (distToPlane CameraRig_new) (Fin 0.1)"
    by (simp add: distToPlane_def new_cam)
  have "framePositions (updateViewportFrame CameraRig_new) ! 7
      = Math_fround (clampedCenterY CameraRig_new + hh CameraRig_new)"
    by (simp add: updateViewportFrame_def v)
  also have "\<dots> = float32 1.1"
    by (simp add: new_clampedCenterY new_hh)
  also note float32_1_1
  finally show ?thesis .
qed

text \<open>
  Claim C5. For a state with a distance in \<open>[0.1, 1000]\<close> and \<open>|camZ| \<ge> 0.1\<close>, and an
  image height that is a number, the base height \<open>2 tan(fov / 2) |camZ|\<close>, with the
  field of view of 50 degrees, is a positive number, the scale is a number in
  \<open>[0.5, 2]\<close>, and the half height \<open>hh\<close> of the frame is half the base height times
  the scale. The plane is scaled to the base height times the scale, and the corners
  are stored at the clamped centre plus and minus \<open>hh\<close>, rounded to single precision.
\<close>

theorem frame_scale_clamped:
  assumes "distance (this_state r) = Fin d" and "0.1 \<le> d" and "d \<le> 1000"
    and "js_ge (distToPlane r) (Fin 0.1)"
    and "imageHeight r \<noteq> NaN"
  shows "\<exists>b k. baseViewHeight r = Fin b \<and> 0 < b
    \<and> baseViewHeight r = Fin 2 * Math_tan (degToRad (Fin 50 / Fin 2)) * Math_abs (camZ r)
    \<and> viewScale r = Fin k \<and> 1 / 2 \<le> k \<and> k \<le> 2
    \<and> hh r = baseViewHeight r / Fin 2 * viewScale r
    \<and> vy (planeScale (updateViewportFrame r)) = baseViewHeight r * viewScale r
    \<and> framePositions (updateViewportFrame r) ! 7 = Math_fround (clampedCenterY r + hh r)
    \<and> framePositions (updateViewportFrame r) ! 1 = Math_fround (clampedCenterY r - hh r)"
proof -
  from camZ_finite [OF assms(1) assms(4)]
  obtain z where z: "camZ r = Fin z" "0.1 \<le> \<bar>z\<bar>" by blast
  define b where "b = 2 * tan (25 * (pi / 180)) * \<bar>z\<bar>"
  have b: "baseViewHeight r = Fin b"
    by (simp add: baseViewHeight_def tan_halfFov distToPlane_def z b_def)
  have pos: "0 < b"
    using tan_halfFov_pos z(2) by (simp add: b_def)
  have base: "baseViewHeight r = Fin 2 * Math_tan (degToRad (Fin 50 / Fin 2)) * Math_abs (camZ r)"
    by (simp add: baseViewHeight_def halfFovRad_def fov_def distToPlane_def)
  from scale_clamped [OF scaleToMatchImage_number [OF b pos assms(5)]]
  obtain k where k: "viewScale r = Fin k" "1 / 2 \<le> k" "k \<le> 2"
    by (auto simp: viewScale_def)
  have h: "hh r = baseViewHeight r / Fin 2 * viewScale r"
    by (simp add: hh_def viewHeight_def b k)
  have v: "\<not> js_lt (distToPlane r) (Fin 0.1)"
    using assms(4) by (simp add: js_ge_def)
  have sc: "vy (planeScale (updateViewportFrame r)) = baseViewHeight r * viewScale r"
    by (simp add: updateViewportFrame_def v Vector3_new_def viewHeight_def)
  have top: "framePositions (updateViewportFrame r) ! 7 = Math_fround (clampedCenterY r + hh r)"
    by (simp add: updateViewportFrame_def v)
  have bot: "framePositions (updateViewportFrame r) ! 1 = Math_fround (clampedCenterY r - hh r)"
    by (simp add: updateViewportFrame_def v)
  from b pos base k h sc top bot show ?thesis
    by blast
qed

theorem frame_scale_clamped_witness:
  "distance (this_state CameraRig_new) = Fin 3 \<and> (0.1::real) \<le> 3 \<and> (3::real) \<le> 1000
   \<and> js_ge (distToPlane CameraRig_new) (Fin 0.1)
   \<and> imageHeight CameraRig_new \<noteq> NaN
   \<and> (\<exists>b k. baseViewHeight CameraRig_new = Fin b \<and> 0 < b
        \<and> viewScale CameraRig_new = Fin k \<and> 1 / 2 \<le> k \<and> k \<le> 2
        \<and> hh CameraRig_new = baseViewHeight CameraRig_new / Fin 2 * viewScale CameraRig_new)
   \<and> framePositions (updateViewportFrame CameraRig_new) ! 7 = Fin (9227469 / 8388608)"
proof -
  have d: "distance (this_state CameraRig_new) = Fin 3"
    by (simp add: this_state_CameraRig_new)
  have g: "js_ge (distToPlane CameraRig_new) (Fin 0.1)"
    by (simp add: js_ge_def distToPlane_def new_cam)
  have i: "imageHeight CameraRig_new \<noteq> NaN"
    by (simp add: new_image)
  have r: "(0.1::real) \<le> 3" "(3::real) \<le> 1000"
    by simp_all
  from frame_scale_clamped [OF d r g i]
  have "\<exists>b k. baseViewHeight CameraRig_new = Fin b \<and> 0 < b
        \<and> viewScale CameraRig_new = Fin k \<and> 1 / 2 \<le> k \<and> k \<le> 2
        \<and> hh CameraRig_new = baseViewHeight CameraRig_new / Fin 2 * viewScale CameraRig_new"
    by blast
  with d r g i new_corner show ?thesis
    by blast
qed

lemma clamp_bounds:
  assumes "0 \<le> w"
  shows "\<exists>c. Math_max (- Fin w) (Math_min (Fin w) (if js_isNaN x then Fin 0 else x)) = Fin c
    \<and> - w \<le> c \<and> c \<le> w \<and> (js_isNaN x \<longrightarrow> c = 0)
    \<and> (\<forall>a. x = Fin a \<longrightarrow> c = max (- w) (min w a))"
  using assms by (cases x) (auto simp: Math_max_def Math_min_def)

text \<open>The rig \<open>rig_wide_tilt60\<close>, evaluated step by step.\<close>

lemma wide_state:
  "this_state rig_wide_tilt60
     = \<lparr>distance = Fin 3, orbitH = Fin 0, orbitV = Fin 0, pan = Fin 0, tilt = Fin 60\<rparr>"
  by (simp add: rig_wide_tilt60_def this_state_updateState this_state_CameraRig_new
      Object_assign_def)

lemma wide_image: "imageWidth rig_wide_tilt60 = Fin 4" "imageHeight rig_wide_tilt60 = Fin 2"
  by (simp_all add: rig_wide_tilt60_def setImageSize_def)

lemma wide_cam:
  "camX rig_wide_tilt60 = Fin 0" "camY rig_wide_tilt60 = Fin 0" "camZ rig_wide_tilt60 = Fin 3"
  by (simp_all add: camX_def camY_def camZ_def theta_def phi_def degToRad_def DEG2RAD_def
      wide_state)

lemma wide_lookDir: "lookDir rig_wide_tilt60 = \<lparr>vx = Fin 0, vy = Fin 0, vz = Fin (- 1)\<rparr>"
  by (simp add: lookDir_def wide_cam normalize_def Vector3_new_def Vector3_length_def
      divideScalar_def multiplyScalar_def js_or_def sqrt_9)

lemma wide_right: "right rig_wide_tilt60 = \<lparr>vx = Fin 1, vy = Fin 0, vz = Fin 0\<rparr>"
  by (simp add: right_def wide_lookDir worldUp_def crossVectors_def normalize_def
      Vector3_new_def Vector3_length_def divideScalar_def multiplyScalar_def js_or_def js_sub_def)

lemma wide_up: "up rig_wide_tilt60 = \<lparr>vx = Fin 0, vy = Fin 1, vz = Fin 0\<rparr>"
  by (simp add: up_def wide_lookDir wide_right crossVectors_def normalize_def
      Vector3_new_def Vector3_length_def divideScalar_def multiplyScalar_def js_or_def js_sub_def)

lemma wide_panQuat:
  "panQuat rig_wide_tilt60 = \<lparr>qx = Fin 0, qy = Fin 0, qz = Fin 0, qw = Fin 1\<rparr>"
  by (simp add: panQuat_def wide_up panRad_def wide_state degToRad_def DEG2RAD_def
      setFromAxisAngle_def Let_def)

lemma wide_tiltQuat:
  "tiltQuat rig_wide_tilt60 = \<lparr>qx = Fin (1 / 2), qy = Fin 0, qz = Fin 0, qw = Fin (sqrt 3 / 2)\<rparr>"
  by (simp add: tiltQuat_def wide_right tiltRad_def wide_state degToRad_def DEG2RAD_def
      setFromAxisAngle_def Let_def sin_30 cos_30)

lemma wide_forward:
  "forward rig_wide_tilt60 = \<lparr>vx = Fin 0, vy = Fin (sqrt 3 / 2), vz = Fin (- (1 / 2))\<rparr>"
  by (simp add: forward_def wide_lookDir wide_panQuat wide_tiltQuat applyQuaternion_def
      js_sub_def Let_def)

lemma wide_centerY: "centerY rig_wide_tilt60 = Fin (3 * sqrt 3)"
  by (simp add: centerY_def wide_forward wide_cam)

lemma sqrt_3_bound: "4 / 3 < sqrt 3"
  by (rule real_less_rsqrt) (simp add: power2_eq_square)

lemma wide_clampedCenterY: "clampedCenterY rig_wide_tilt60 = Fin 4"
  using sqrt_3_bound
  by (simp add: clampedCenterY_def maxOffset_def wide_image wide_centerY Math_max_def Math_min_def)

lemma wide_distToPlane: "js_ge (distToPlane rig_wide_tilt60) (Fin 0.1)"
  by (simp add: js_ge_def distToPlane_def wide_cam)

text \<open>The rig \<open>rig_pan_NaN\<close>, evaluated step by step.\<close>

lemma nan_state:
  "this_state rig_pan_NaN
     = \<lparr>distance = Fin 3, orbitH = Fin 0, orbitV = Fin 0, pan = NaN, tilt = Fin 0\<rparr>"
  by (simp add: rig_pan_NaN_def this_state_updateState this_state_CameraRig_new
      Object_assign_def)

lemma nan_image: "imageWidth rig_pan_NaN = Fin 2"
  by (simp add: rig_pan_NaN_def CameraRig_new_def)

lemma nan_cam:
  "camX rig_pan_NaN = Fin 0" "camY rig_pan_NaN = Fin 0" "camZ rig_pan_NaN = Fin 3"
  by (simp_all add: camX_def camY_def camZ_def theta_def phi_def degToRad_def DEG2RAD_def
      nan_state)

lemma nan_lookDir: "lookDir rig_pan_NaN = \<lparr>vx = Fin 0, vy = Fin 0, vz = Fin (- 1)\<rparr>"
  by (simp add: lookDir_def nan_cam normalize_def Vector3_new_def Vector3_length_def
      divideScalar_def multiplyScalar_def js_or_def sqrt_9)

lemma nan_right: "right rig_pan_NaN = \<lparr>vx = Fin 1, vy = Fin 0, vz = Fin 0\<rparr>"
  by (simp add: right_def nan_lookDir worldUp_def crossVectors_def normalize_def
      Vector3_new_def Vector3_length_def divideScalar_def multiplyScalar_def js_or_def js_sub_def)

lemma nan_up: "up rig_pan_NaN = \<lparr>vx = Fin 0, vy = Fin 1, vz = Fin 0\<rparr>"
  by (simp add: up_def nan_lookDir nan_right crossVectors_def normalize_def
      Vector3_new_def Vector3_length_def divideScalar_def multiplyScalar_def js_or_def js_sub_def)

lemma nan_panQuat:
  "panQuat rig_pan_NaN = \<lparr>qx = NaN, qy = NaN, qz = NaN, qw = NaN\<rparr>"
  by (simp add: panQuat_def nan_up panRad_def nan_state degToRad_def DEG2RAD_def
      setFromAxisAngle_def Let_def)

lemma nan_tiltQuat:
  "tiltQuat rig_pan_NaN = \<lparr>qx = Fin 0, qy = Fin 0, qz = Fin 0, qw = Fin 1\<rparr>"
  by (simp add: tiltQuat_def nan_right tiltRad_def nan_state degToRad_def DEG2RAD_def
      setFromAxisAngle_def Let_def)

lemma nan_forward: "forward rig_pan_NaN = \<lparr>vx = NaN, vy = NaN, vz = NaN\<rparr>"
  by (simp add: forward_def nan_lookDir nan_panQuat nan_tiltQuat applyQuaternion_def
      js_sub_def Let_def)

lemma nan_center: "centerX rig_pan_NaN = NaN" "centerY rig_pan_NaN = NaN"
  by (simp_all add: centerX_def centerY_def nan_forward nan_cam)

lemma nan_distToPlane: "js_ge (distToPlane rig_pan_NaN) (Fin 0.1)"
  by (simp add: js_ge_def distToPlane_def nan_cam)

text \<open>
  Claim C4, amended. For an image width \<open>w \<ge> 0\<close> and \<open>|camZ| \<ge> 0.1\<close>, both coordinates
  of the clamped centre are numbers within \<open>\<plusminus>w\<close>, the image width (the height of the
  image plays no part); a centre coordinate that is \<open>NaN\<close> gives 0, one that is a number
  is cut off at \<open>-w\<close> and \<open>w\<close>; and the plane is placed at the clamped centre.
\<close>

theorem frame_center_clamped:
  assumes "imageWidth r = Fin w" and "0 \<le> w"
    and "js_ge (distToPlane r) (Fin 0.1)"
  shows "\<exists>cx cy. clampedCenterX r = Fin cx \<and> - w \<le> cx \<and> cx \<le> w
    \<and> clampedCenterY r = Fin cy \<and> - w \<le> cy \<and> cy \<le> w
    \<and> (js_isNaN (centerX r) \<longrightarrow> cx = 0)
    \<and> (js_isNaN (centerY r) \<longrightarrow> cy = 0)
    \<and> (\<forall>a. centerX r = Fin a \<longrightarrow> cx = max (- w) (min w a))
    \<and> (\<forall>a. centerY r = Fin a \<longrightarrow> cy = max (- w) (min w a))
    \<and> planePosition (updateViewportFrame r) = Vector3_new (Fin cx) (Fin cy) (frameZ r)"
proof -
  from clamp_bounds [OF assms(2), of "centerX r"]
  obtain cx where cx: "clampedCenterX r = Fin cx" "- w \<le> cx" "cx \<le> w"
    "js_isNaN (centerX r) \<longrightarrow> cx = 0"
    "\<forall>a. centerX r = Fin a \<longrightarrow> cx = max (- w) (min w a)"
    unfolding clampedCenterX_def maxOffset_def assms(1) by blast
  from clamp_bounds [OF assms(2), of "centerY r"]
  obtain cy where cy: "clampedCenterY r = Fin cy" "- w \<le> cy" "cy \<le> w"
    "js_isNaN (centerY r) \<longrightarrow> cy = 0"
    "\<forall>a. centerY r = Fin a \<longrightarrow> cy = max (- w) (min w a)"
    unfolding clampedCenterY_def maxOffset_def assms(1) by blast
  have "planePosition (updateViewportFrame r) = Vector3_new (Fin cx) (Fin cy) (frameZ r)"
    using assms(3) by (simp add: updateViewportFrame_def js_ge_def cx(1) cy(1))
  with cx cy show ?thesis by blast
qed

theorem frame_center_clamped_witness:
  "imageWidth rig_wide_tilt60 = Fin 4 \<and> (0::real) \<le> 4
   \<and> js_ge (distToPlane rig_wide_tilt60) (Fin 0.1)
   \<and> clampedCenterX rig_wide_tilt60 = Fin 0
   \<and> clampedCenterY rig_wide_tilt60 = Fin 4
   \<and> planePosition (updateViewportFrame rig_wide_tilt60) = Vector3_new (Fin 0) (Fin 4) (Fin 0.01)
   \<and> imageWidth rig_pan_NaN = Fin 2 \<and> (0::real) \<le> 2
   \<and> js_ge (distToPlane rig_pan_NaN) (Fin 0.1)
   \<and> js_isNaN (centerX rig_pan_NaN) \<and> js_isNaN (centerY rig_pan_NaN)
   \<and> clampedCenterX rig_pan_NaN = Fin 0 \<and> clampedCenterY rig_pan_NaN = Fin 0"
proof -
  have z: "(0::real) \<le> 4" by simp
  have x: "clampedCenterX rig_wide_tilt60 = Fin 0"
    by (simp add: clampedCenterX_def centerX_def maxOffset_def wide_image wide_forward wide_cam
        Math_max_def Math_min_def)
  have f: "frameZ rig_wide_tilt60 = Fin 0.01"
    by (simp add: frameZ_def wide_cam js_gt_def)
  from frame_center_clamped [OF wide_image(1) z wide_distToPlane]
  have p: "planePosition (updateViewportFrame rig_wide_tilt60)
      = Vector3_new (Fin 0) (Fin 4) (Fin 0.01)"
    by (auto simp: x wide_clampedCenterY f)
  have z': "(0::real) \<le> 2" by simp
  have n: "js_isNaN (centerX rig_pan_NaN)" "js_isNaN (centerY rig_pan_NaN)"
    by (simp_all add: nan_center)
  from frame_center_clamped [OF nan_image z' nan_distToPlane] n
  have c: "clampedCenterX rig_pan_NaN = Fin 0" "clampedCenterY rig_pan_NaN = Fin 0"
    by auto
  from p c n wide_image(1) z wide_distToPlane x wide_clampedCenterY nan_image z' nan_distToPlane
  show ?thesis
    by simp
qed

text \<open>
  Claim C4 as stated (the Y coordinate lies within the image height) fails for the
  4 by 2 image with the gaze tilted by 60 degrees: the projected centre is at
  \<open>y = 3 \<surd>3\<close>, it is clamped to the width 4, and 4 exceeds the height 2.
\<close>

theorem center_y_exceeds_image_height:
  "js_ge (distToPlane rig_wide_tilt60) (Fin 0.1)
   \<and> imageHeight rig_wide_tilt60 = Fin 2
   \<and> clampedCenterY rig_wide_tilt60 = Fin 4
   \<and> vy (planePosition (updateViewportFrame rig_wide_tilt60)) = Fin 4
   \<and> \<not> js_ge (imageHeight rig_wide_tilt60) (clampedCenterY rig_wide_tilt60)"
  using wide_distToPlane
  by (simp add: wide_image wide_clampedCenterY updateViewportFrame_def js_ge_def Vector3_new_def)

end
